theory Spec2Isabelle
  imports Complex_Main "HOL-Library.Sublist"
begin

section \<open>The account manager of \<^verbatim>\<open>src/account-manager/main.py\<close>\<close>

text \<open>
  The module provisions one isolated browser identity per call of
  \<^verbatim>\<open>TikTokAccountManager.create_tiktok_account\<close>: it draws a fingerprint and a proxy,
  stores a profile, and is written to launch a browser for the profile, drive the
  sign-up pages and store the result. The embedding below follows the Python text
  function by function.

  Everything the program reads from outside is a field of the record \<open>env\<close>, which no
  function changes; everything it writes is a field of the record \<open>state\<close>, which every
  function takes and returns. An exception is a value of the type \<open>exn\<close>, and a function
  that can raise returns \<open>exn + 'a\<close> with \<open>Inl\<close> for the exception.
\<close>

subsection \<open>The interactive surface\<close>

text \<open>
  Each \<^verbatim>\<open>WebDriverWait(driver, t).until(...)\<close> of the source is one wait site. A run
  visits every site at most once (the source has no loop over the page), so the
  behaviour of an arbitrary, changing page during one run is given by one boolean per
  site: whether the awaited element shows up before the timeout.
\<close>

datatype site =
    PhoneEmailButton    \<comment> \<open>\<^verbatim>\<open>//div[contains(text(), 'Use phone or email')]\<close>\<close>
  | MonthSelect         \<comment> \<open>\<^verbatim>\<open>//select[@name='month']\<close>\<close>
  | DaySelect           \<comment> \<open>\<^verbatim>\<open>//select[@name='day']\<close>\<close>
  | YearSelect          \<comment> \<open>\<^verbatim>\<open>//select[@name='year']\<close>\<close>
  | BirthdateNext       \<comment> \<open>the Next / Sign up button after the birthdate\<close>
  | PhoneTab            \<comment> \<open>the tab-item labelled Phone\<close>
  | PhoneInput          \<comment> \<open>\<^verbatim>\<open>//input[@type='tel' or @name='phone_number' or ...]\<close>\<close>
  | PasswordInput       \<comment> \<open>\<^verbatim>\<open>//input[@type='password' or @name='password']\<close>\<close>
  | SendCodeButton      \<comment> \<open>the Send code / Next / submit button\<close>
  | Captcha             \<comment> \<open>any element whose class or id contains captcha\<close>
  | CodeInput           \<comment> \<open>\<^verbatim>\<open>//input[@name='code' or @data-tt='verification-code-input']\<close>\<close>
  | FinalSignupButton   \<comment> \<open>the final Sign up / Next / submit button\<close>
  | UsernameInput       \<comment> \<open>\<^verbatim>\<open>//input[@placeholder='Username' or @name='unique_id']\<close>\<close>
  | UsernameConfirm     \<comment> \<open>the Confirm / submit button of the username page\<close>
  | UploadPhotoButton   \<comment> \<open>the Upload photo / Add profile picture button\<close>
  | BioInput            \<comment> \<open>\<^verbatim>\<open>//textarea[@placeholder='Add a bio']\<close>\<close>
  | BioSaveButton       \<comment> \<open>the Save / Confirm button of the bio\<close>

subsection \<open>Exceptions\<close>

datatype exn =
    Exception string        \<comment> \<open>\<^verbatim>\<open>raise Exception(msg)\<close>\<close>
  | KeyError string         \<comment> \<open>subscript of a dict with a key it does not hold\<close>
  | IndexError              \<comment> \<open>subscript of a list past its end\<close>
  | TypeError string        \<comment> \<open>\<^verbatim>\<open>await\<close> on an object of the named class, which is not awaitable\<close>
  | TimeoutException site   \<comment> \<open>raised by \<^verbatim>\<open>WebDriverWait.until\<close>\<close>
  | WebDriverException      \<comment> \<open>raised by \<^verbatim>\<open>uc.Chrome(options=options)\<close>\<close>

subsection \<open>Stored documents\<close>

record proxy =
  proxy_type :: string
  ip :: string
  port :: string
  proxy_user :: string
  proxy_password :: string

record fingerprint =
  user_agent :: string
  screen_resolution :: string
  viewport_size :: string
  color_depth :: int
  pixel_ratio :: rat
  timezone_offset :: int
  fp_language :: string
  platform :: string
  webgl_vendor :: string
  canvas_fingerprint :: string

record device =
  device_model :: string
  os_version :: string
  gpu :: string

text \<open>The dataclass \<^verbatim>\<open>AccountProfile\<close>; times are microseconds since the epoch.\<close>

record account_profile =
  account_id :: string
  user_id :: string
  proxy_config :: proxy
  browser_fingerprint :: fingerprint
  language :: string
  timezone :: string
  device_info :: device
  created_at :: nat
  last_active :: nat
  status :: string

text \<open>The dict returned by \<^verbatim>\<open>_register_tiktok_account\<close>.\<close>

record tiktok_profile =
  username :: string
  password :: "string option"
  phone :: string
  tp_status :: string
  tp_created_at :: nat

text \<open>A document of the collection \<^verbatim>\<open>db.tiktok_accounts\<close>, as the upsert builds it.\<close>

record tiktok_account =
  ta_account_id :: string
  ta_tiktok_profile :: tiktok_profile
  ta_status :: string

subsection \<open>Driver calls and log lines\<close>

datatype script =
    HideWebdriver
  | OverrideNavigator string string string   \<comment> \<open>user agent, platform, language\<close>
  | OverrideScreen string string int         \<comment> \<open>width, height, colour depth\<close>
  | FakePlugins

datatype event =
    Launch "string list"        \<comment> \<open>\<^verbatim>\<open>uc.Chrome(options=options)\<close>, with the arguments\<close>
  | ExecuteScript script
  | Get string
  | Wait site
  | Click site
  | Clear site
  | SendKeys site string
  | SaveScreenshot string
  | Quit

datatype level = INFO | WARNING | ERROR

subsection \<open>Environment and state\<close>

text \<open>
  \<open>rand\<close> is the sequence of draws of Python's \<^verbatim>\<open>random\<close> module and \<open>clock\<close> the
  sequence of readings of \<^verbatim>\<open>datetime.now()\<close>; \<open>rpos\<close> and \<open>cpos\<close> count how many
  of each the program has consumed. The four library functions are parameters:
  \<open>md5_hexdigest\<close> is \<^verbatim>\<open>hashlib.md5(s.encode()).hexdigest()\<close>, \<open>float_str\<close> is
  \<^verbatim>\<open>str\<close> on the float nearest to a rational, \<open>strftime\<close> is
  \<^verbatim>\<open>strftime('%Y%m%d%H%M%S')\<close> and \<open>ua_random\<close> is \<^verbatim>\<open>UserAgent().random\<close> as a
  function of the draw it makes. \<open>launch_ok\<close> says whether the browser starts. Of the
  driver's calls only the waits and the launch can fail; navigation, clicks, typing,
  scripts and screenshots are taken to succeed, and so are the calls of the database
  client.

  The texts of the exceptions that no line of the source writes are parameters as
  well: \<open>repr_str\<close> is Python's \<^verbatim>\<open>repr\<close> on a string, \<open>await_str c\<close> is the text of the
  TypeError that \<^verbatim>\<open>await\<close> raises on an object of the class \<open>c\<close>, \<open>timeout_str x\<close> is
  the text of the TimeoutException of the wait at the site \<open>x\<close>, and \<open>webdriver_str\<close>
  is the text of the exception of a browser that does not start.
\<close>

record env =
  surface :: "site \<Rightarrow> bool"
  launch_ok :: bool
  rand :: "nat \<Rightarrow> nat"
  clock :: "nat \<Rightarrow> nat"
  md5_hexdigest :: "string \<Rightarrow> string"
  float_str :: "rat \<Rightarrow> string"
  strftime :: "nat \<Rightarrow> string"
  ua_random :: "nat \<Rightarrow> string"
  repr_str :: "string \<Rightarrow> string"
  await_str :: "string \<Rightarrow> string"
  timeout_str :: "site \<Rightarrow> string"
  webdriver_str :: string

record state =
  rpos :: nat
  cpos :: nat
  profiles :: "account_profile list"
  tiktok_accounts :: "tiktok_account list"
  events :: "event list"
  logged :: "(level \<times> string) list"

text \<open>
  \<^verbatim>\<open>str(e)\<close>. The text of an \<^verbatim>\<open>Exception(msg)\<close> is its message, the text of a KeyError
  is the \<^verbatim>\<open>repr\<close> of the key, and the text of the IndexError of a list subscript is
  fixed.
\<close>

fun str_exn :: "env \<Rightarrow> exn \<Rightarrow> string" where
  "str_exn e (Exception msg) = msg"
| "str_exn e (KeyError k) = repr_str e k"
| "str_exn e IndexError = ''list index out of range''"
| "str_exn e (TypeError c) = await_str e c"
| "str_exn e (TimeoutException x) = timeout_str e x"
| "str_exn e WebDriverException = webdriver_str e"

definition emit :: "event \<Rightarrow> state \<Rightarrow> state" where
  "emit ev s = s\<lparr>events := events s @ [ev]\<rparr>"

definition logging :: "level \<Rightarrow> string \<Rightarrow> state \<Rightarrow> state" where
  "logging l msg s = s\<lparr>logged := logged s @ [(l, msg)]\<rparr>"

subsection \<open>Python primitives\<close>

definition next_rand :: "env \<Rightarrow> state \<Rightarrow> nat \<times> state" where
  "next_rand e s = (rand e (rpos s), s\<lparr>rpos := Suc (rpos s)\<rparr>)"

text \<open>\<^verbatim>\<open>random.randint(a, b)\<close>, used with \<open>a \<le> b\<close> only.\<close>

definition randint :: "int \<Rightarrow> int \<Rightarrow> env \<Rightarrow> state \<Rightarrow> int \<times> state" where
  "randint a b e s =
     (let (d, s) = next_rand e s in (a + int (d mod nat (b - a + 1)), s))"

text \<open>
  \<^verbatim>\<open>random.choice(xs)\<close>. Python raises IndexError on an empty sequence; every call of
  the source passes a literal, non-empty list, except \<^verbatim>\<open>_assign_proxy\<close>, which tests
  for the empty list first.
\<close>

definition random_choice :: "'a list \<Rightarrow> env \<Rightarrow> state \<Rightarrow> 'a \<times> state" where
  "random_choice xs e s =
     (let (d, s) = next_rand e s in (xs ! (d mod length xs), s))"

text \<open>\<^verbatim>\<open>random.random()\<close>: a multiple of \<open>2\<^sup>-\<^sup>5\<^sup>3\<close> in \<open>[0, 1)\<close>.\<close>

definition random_random :: "env \<Rightarrow> state \<Rightarrow> rat \<times> state" where
  "random_random e s =
     (let (d, s) = next_rand e s in (of_nat (d mod 2 ^ 53) / 2 ^ 53, s))"

definition now :: "env \<Rightarrow> state \<Rightarrow> nat \<times> state" where
  "now e s = (clock e (cpos s), s\<lparr>cpos := Suc (cpos s)\<rparr>)"

text \<open>\<^verbatim>\<open>datetime.timestamp()\<close>: seconds since the epoch.\<close>

definition timestamp :: "nat \<Rightarrow> rat" where
  "timestamp t = of_nat t / 10 ^ 6"

fun str_nat :: "nat \<Rightarrow> string" where
  "str_nat n =
     (if n < 10 then [''0123456789'' ! n]
      else str_nat (n div 10) @ [''0123456789'' ! (n mod 10)])"

declare str_nat.simps [simp del]

definition str_int :: "int \<Rightarrow> string" where
  "str_int i = (if i < 0 then ''-'' @ str_nat (nat (- i)) else str_nat (nat i))"

text \<open>\<^verbatim>\<open>s.split(c)\<close> for a separator of one character.\<close>

fun split_on :: "char \<Rightarrow> string \<Rightarrow> string list" where
  "split_on c [] = [[]]"
| "split_on c (x # xs) =
     (if x = c then [] # split_on c xs
      else (case split_on c xs of
              [] \<Rightarrow> [[x]]
            | p # ps \<Rightarrow> (x # p) # ps))"

text \<open>\<^verbatim>\<open>s.replace(a, b)\<close> for strings of one character.\<close>

definition replace_char :: "char \<Rightarrow> char \<Rightarrow> string \<Rightarrow> string" where
  "replace_char a b s = map (\<lambda>c. if c = a then b else c) s"

text \<open>\<^verbatim>\<open>d.get(k, default)\<close>.\<close>

definition get_default :: "(string \<rightharpoonup> string) \<Rightarrow> string \<Rightarrow> string \<Rightarrow> string" where
  "get_default d k dflt = (case d k of None \<Rightarrow> dflt | Some v \<Rightarrow> v)"

section \<open>\<^verbatim>\<open>AccountIsolationManager\<close>\<close>

record lang_config =
  lang_name :: string
  lang_locale :: string

definition supported_languages :: "(string \<times> lang_config) list" where
  "supported_languages =
     [(''en'', \<lparr>lang_name = ''English'', lang_locale = ''en-US''\<rparr>),
      (''zh'', \<lparr>lang_name = ''Chinese'', lang_locale = ''zh-CN''\<rparr>),
      (''ja'', \<lparr>lang_name = ''Japanese'', lang_locale = ''ja-JP''\<rparr>),
      (''ko'', \<lparr>lang_name = ''Korean'', lang_locale = ''ko-KR''\<rparr>),
      (''es'', \<lparr>lang_name = ''Spanish'', lang_locale = ''es-ES''\<rparr>),
      (''fr'', \<lparr>lang_name = ''French'', lang_locale = ''fr-FR''\<rparr>),
      (''de'', \<lparr>lang_name = ''German'', lang_locale = ''de-DE''\<rparr>),
      (''it'', \<lparr>lang_name = ''Italian'', lang_locale = ''it-IT''\<rparr>),
      (''pt'', \<lparr>lang_name = ''Portuguese'', lang_locale = ''pt-BR''\<rparr>),
      (''ru'', \<lparr>lang_name = ''Russian'', lang_locale = ''ru-RU''\<rparr>),
      (''ar'', \<lparr>lang_name = ''Arabic'', lang_locale = ''ar-SA''\<rparr>),
      (''hi'', \<lparr>lang_name = ''Hindi'', lang_locale = ''hi-IN''\<rparr>),
      (''th'', \<lparr>lang_name = ''Thai'', lang_locale = ''th-TH''\<rparr>)]"

subsection \<open>\<^verbatim>\<open>_generate_canvas_fingerprint\<close>, \<^verbatim>\<open>_generate_browser_fingerprint\<close>\<close>

definition generate_canvas_fingerprint :: "env \<Rightarrow> state \<Rightarrow> string \<times> state" where
  "generate_canvas_fingerprint e s =
     (let (r, s) = random_random e s;
          (t, s) = now e s;
          seed = float_str e r @ float_str e (timestamp t)
      in (md5_hexdigest e seed, s))"

definition screen_resolutions :: "string list" where
  "screen_resolutions = [''1920x1080'', ''1366x768'', ''1440x900'', ''1536x864'']"

definition viewport_sizes :: "string list" where
  "viewport_sizes = [''1200x800'', ''1366x768'', ''1440x900'']"

definition color_depths :: "int list" where
  "color_depths = [24, 32]"

definition pixel_ratios :: "rat list" where
  "pixel_ratios = [1, 1.25, 1.5, 2]"

definition platforms :: "string list" where
  "platforms = [''Win32'', ''MacIntel'', ''Linux x86_64'']"

definition webgl_vendors :: "string list" where
  "webgl_vendors = [''NVIDIA Corporation'', ''AMD'', ''Intel Inc.'']"

definition generate_browser_fingerprint :: "env \<Rightarrow> state \<Rightarrow> fingerprint \<times> state" where
  "generate_browser_fingerprint e s =
     (let (d, s) = next_rand e s;
          (res, s) = random_choice screen_resolutions e s;
          (vp, s) = random_choice viewport_sizes e s;
          (depth, s) = random_choice color_depths e s;
          (ratio, s) = random_choice pixel_ratios e s;
          (tz, s) = randint (- 12) 12 e s;
          (lang, s) = random_choice (map fst supported_languages) e s;
          (plat, s) = random_choice platforms e s;
          (vendor, s) = random_choice webgl_vendors e s;
          (canvas, s) = generate_canvas_fingerprint e s
      in (\<lparr>user_agent = ua_random e d,
           screen_resolution = res,
           viewport_size = vp,
           color_depth = depth,
           pixel_ratio = ratio,
           timezone_offset = tz,
           fp_language = lang,
           platform = plat,
           webgl_vendor = vendor,
           canvas_fingerprint = canvas\<rparr>, s))"

subsection \<open>\<^verbatim>\<open>_generate_device_info\<close>\<close>

definition generate_device_info :: "env \<Rightarrow> state \<Rightarrow> device \<times> state" where
  "generate_device_info e s =
     (let (m, s) = random_choice [''iPhone 13'', ''Samsung Galaxy S22'', ''Google Pixel 7''] e s;
          (v, s) = random_choice [''iOS 16'', ''Android 13''] e s;
          (g, s) = random_choice [''Apple A15 Bionic'', ''Adreno 730'', ''Mali-G710 MP10''] e s
      in (\<lparr>device_model = m, os_version = v, gpu = g\<rparr>, s))"

subsection \<open>\<^verbatim>\<open>_assign_proxy\<close>\<close>

text \<open>
  The source binds the local \<^verbatim>\<open>proxy_list\<close> to a literal of two proxies and then runs
  the body below on it. The body is written for any list \<open>pl\<close>; \<open>proxy_list\<close> is the
  literal, and the only list the program runs the body on. The body reads and writes
  no store: the only line that would, the \<^verbatim>\<open>setex\<close> on the key
  \<^verbatim>\<open>proxy_usage:<ip>\<close>, is commented out in the source.
\<close>

definition proxy_list :: "proxy list" where
  "proxy_list =
     [\<lparr>proxy_type = ''http'', ip = ''1.2.3.4'', port = ''8080'',
       proxy_user = ''user1'', proxy_password = ''password1''\<rparr>,
      \<lparr>proxy_type = ''socks5'', ip = ''5.6.7.8'', port = ''1080'',
       proxy_user = ''user2'', proxy_password = ''password2''\<rparr>]"

definition assign_proxy :: "proxy list \<Rightarrow> env \<Rightarrow> state \<Rightarrow> (exn + proxy) \<times> state" where
  "assign_proxy pl e s =
     (if pl = [] then (Inl (Exception ''No available proxies''), s)
      else (let (p, s) = random_choice pl e s in (Inr p, s)))"

subsection \<open>\<^verbatim>\<open>_save_account_profile\<close>, \<^verbatim>\<open>_get_account_profile\<close>\<close>

text \<open>
  The collection \<^verbatim>\<open>db.profiles\<close> is the list of its documents: \<^verbatim>\<open>insert_one\<close> adds
  one, \<^verbatim>\<open>find_one\<close> returns the first that matches.

  Both managers hold a \<^verbatim>\<open>pymongo.MongoClient\<close>, whose calls are synchronous:
  \<^verbatim>\<open>insert_one\<close>, \<^verbatim>\<open>find_one\<close> and \<^verbatim>\<open>update_one\<close> run to their end and return an
  \<^verbatim>\<open>InsertOneResult\<close>, a dict or \<^verbatim>\<open>None\<close>, and an \<^verbatim>\<open>UpdateResult\<close>. The source
  writes \<^verbatim>\<open>await\<close> in front of each of the three calls. The operand of \<^verbatim>\<open>await\<close> is
  evaluated first, so the call is made; none of the objects it returns is awaitable,
  so \<^verbatim>\<open>await\<close> then raises TypeError, and the statements after it are not run.
\<close>

definition await_object :: "string \<Rightarrow> exn + unit" where
  "await_object c = Inl (TypeError c)"

definition save_account_profile :: "account_profile \<Rightarrow> state \<Rightarrow> (exn + unit) \<times> state" where
  "save_account_profile profile s =
     (let s = s\<lparr>profiles := profiles s @ [profile]\<rparr>
      in case await_object ''InsertOneResult'' of
           Inl ex \<Rightarrow> (Inl ex, s)
         | Inr _ \<Rightarrow>
             (Inr (),
              logging INFO (''Account profile '' @ account_id profile @ '' saved to MongoDB.'')
                s))"

definition get_account_profile :: "string \<Rightarrow> state \<Rightarrow> exn + account_profile option" where
  "get_account_profile aid s =
     (let found = find (\<lambda>p. account_id p = aid) (profiles s)
      in case await_object (case found of None \<Rightarrow> ''NoneType'' | Some _ \<Rightarrow> ''dict'') of
           Inl ex \<Rightarrow> Inl ex
         | Inr _ \<Rightarrow> Inr found)"

subsection \<open>\<^verbatim>\<open>create_isolated_account\<close>\<close>

definition create_isolated_account ::
  "string \<Rightarrow> (string \<rightharpoonup> string) \<Rightarrow> env \<Rightarrow> state \<Rightarrow> (exn + string) \<times> state" where
  "create_isolated_account uid account_config e s =
     (let (n, s) = randint 10000 99999 e s;
          aid = ''tiktok_'' @ uid @ ''_'' @ str_int n;
          (fp, s) = generate_browser_fingerprint e s;
          (r, s) = assign_proxy proxy_list e s
      in case r of
           Inl ex \<Rightarrow> (Inl ex, s)
         | Inr prx \<Rightarrow>
             (let lang = get_default account_config ''language'' ''en'';
                  tz = get_default account_config ''timezone'' ''UTC'';
                  (dev, s) = generate_device_info e s;
                  (t1, s) = now e s;
                  (t2, s) = now e s;
                  profile = \<lparr>account_id = aid, user_id = uid, proxy_config = prx,
                             browser_fingerprint = fp, language = lang, timezone = tz,
                             device_info = dev, created_at = t1, last_active = t2,
                             status = ''active''\<rparr>;
                  (r, s) = save_account_profile profile s
              in case r of
                   Inl ex \<Rightarrow> (Inl ex, s)
                 | Inr _ \<Rightarrow> (Inr aid, s)))"

subsection \<open>\<^verbatim>\<open>_apply_anti_detection\<close>\<close>

text \<open>
  Four \<^verbatim>\<open>execute_script\<close> calls. The third formats
  \<^verbatim>\<open>screen_resolution.split('x')[0]\<close> and \<^verbatim>\<open>[1]\<close> into its text before it runs, so
  a resolution without an \<^verbatim>\<open>x\<close> raises IndexError after the first two scripts.
\<close>

definition apply_anti_detection :: "fingerprint \<Rightarrow> state \<Rightarrow> (exn + unit) \<times> state" where
  "apply_anti_detection fp s =
     (let s = emit (ExecuteScript HideWebdriver) s;
          s = emit (ExecuteScript
                (OverrideNavigator (user_agent fp) (platform fp) (fp_language fp))) s
      in case split_on CHR ''x'' (screen_resolution fp) of
           w # h # _ \<Rightarrow>
             (let s = emit (ExecuteScript (OverrideScreen w h (color_depth fp))) s;
                  s = emit (ExecuteScript FakePlugins) s
              in (Inr (), s))
         | _ \<Rightarrow> (Inl IndexError, s))"

subsection \<open>\<^verbatim>\<open>get_browser_instance\<close>\<close>

text \<open>
  The driver handle carries the Chrome arguments it was started with. The two
  experimental options of the source are not arguments and are left out. The stored
  \<^verbatim>\<open>proxy_config\<close> is a dict of five entries, so the test \<^verbatim>\<open>profile.get('proxy_config')\<close>
  is true, and both branches of the test on the credentials add the same argument.
\<close>

datatype driver = Chrome "string list"

text \<open>
  The statements of \<^verbatim>\<open>get_browser_instance\<close> from the Chrome options to the end,
  for the profile that the first statement has loaded.
\<close>

definition build_browser ::
  "string \<Rightarrow> account_profile \<Rightarrow> env \<Rightarrow> state \<Rightarrow> (exn + driver) \<times> state" where
  "build_browser aid profile e s =
     (let prx = proxy_config profile;
          fp = browser_fingerprint profile;
          proxy_string = ip prx @ '':'' @ port prx;
          options =
            [''--no-sandbox'',
             ''--disable-dev-shm-usage'',
             ''--disable-blink-features=AutomationControlled'',
             ''--proxy-server='' @ proxy_type prx @ ''://'' @ proxy_string,
             ''--user-agent='' @ user_agent fp,
             ''--window-size='' @ replace_char CHR ''x'' CHR '','' (screen_resolution fp)]
      in case map_of supported_languages (language profile) of
           None \<Rightarrow> (Inl (KeyError (language profile)), s)
         | Some lc \<Rightarrow>
             (let options = options @
                    [''--lang='' @ lang_locale lc,
                     ''--user-data-dir=/tmp/chrome_profiles/'' @ aid]
              in if launch_ok e then
                   (let s = emit (Launch options) s;
                        (r, s) = apply_anti_detection fp s
                    in case r of
                         Inl ex \<Rightarrow> (Inl ex, s)
                       | Inr _ \<Rightarrow> (Inr (Chrome options), s))
                 else (Inl WebDriverException, s)))"

definition get_browser_instance :: "string \<Rightarrow> env \<Rightarrow> state \<Rightarrow> (exn + driver) \<times> state" where
  "get_browser_instance aid e s =
     (case get_account_profile aid s of
        Inl ex \<Rightarrow> (Inl ex, s)
      | Inr None \<Rightarrow> (Inl (Exception (''Account '' @ aid @ '' not found'')), s)
      | Inr (Some profile) \<Rightarrow> build_browser aid profile e s)"

section \<open>\<^verbatim>\<open>TikTokAccountManager\<close>\<close>

subsection \<open>Generated artifacts\<close>

definition generate_virtual_phone :: "env \<Rightarrow> state \<Rightarrow> string \<times> state" where
  "generate_virtual_phone e s =
     (let (a, s) = randint 200 999 e s;
          (b, s) = randint 200 999 e s;
          (c, s) = randint 1000 9999 e s
      in (''1'' @ str_int a @ str_int b @ str_int c, s))"

text \<open>\<^verbatim>\<open>if preferred:\<close> is false for \<^verbatim>\<open>None\<close> and for the empty string.\<close>

definition generate_username :: "string option \<Rightarrow> env \<Rightarrow> state \<Rightarrow> string \<times> state" where
  "generate_username preferred e s =
     (case preferred of
        Some (c # cs) \<Rightarrow>
          (let (n, s) = randint 100 999 e s in ((c # cs) @ ''_'' @ str_int n, s))
      | _ \<Rightarrow>
          (let (t, s) = now e s;
               (n, s) = randint 100 999 e s
           in (''user_'' @ strftime e t @ ''_'' @ str_int n, s)))"

definition chars :: string where
  "chars = ''abcdefghijklmnopqrstuvwxyzABCDEFGHIJKLMNOPQRSTUVWXYZ0123456789!@#$%^&*()''"

text \<open>\<^verbatim>\<open>"".join(random.choice(cs) for i in range(n))\<close>.\<close>

primrec random_chars :: "nat \<Rightarrow> string \<Rightarrow> env \<Rightarrow> state \<Rightarrow> string \<times> state" where
  "random_chars 0 cs e s = ([], s)"
| "random_chars (Suc n) cs e s =
     (let (c, s) = random_choice cs e s;
          (rest, s) = random_chars n cs e s
      in (c # rest, s))"

definition generate_secure_password :: "env \<Rightarrow> state \<Rightarrow> string \<times> state" where
  "generate_secure_password e s = random_chars 12 chars e s"

subsection \<open>The steps of \<^verbatim>\<open>_register_tiktok_account\<close>\<close>

text \<open>
  \<^verbatim>\<open>WebDriverWait(driver, t).until(condition)\<close>: the element, or TimeoutException. The
  sleeps between the steps take time and change nothing else.
\<close>

definition wait_until :: "site \<Rightarrow> env \<Rightarrow> state \<Rightarrow> (exn + unit) \<times> state" where
  "wait_until x e s =
     (let s = emit (Wait x) s
      in if surface e x then (Inr (), s) else (Inl (TimeoutException x), s))"

text \<open>
  Each definition below is one \<^verbatim>\<open>try\<close> statement of the source, in the order of the
  source. A handler that only logs makes the step return the state; a handler that
  ends in \<^verbatim>\<open>raise\<close> makes it return the exception.
\<close>

definition click_phone_or_email :: "env \<Rightarrow> state \<Rightarrow> state" where
  "click_phone_or_email e s =
     (case wait_until PhoneEmailButton e s of
        (Inr _, s) \<Rightarrow> emit (Click PhoneEmailButton) s
      | (Inl ex, s) \<Rightarrow>
          logging INFO (''Phone or email button not found or not clickable immediately, proceeding. ''
            @ str_exn e ex) s)"

definition months :: "string list" where
  "months = [''Jan'', ''Feb'', ''Mar'', ''Apr'', ''May'', ''Jun'',
             ''Jul'', ''Aug'', ''Sep'', ''Oct'', ''Nov'', ''Dec'']"

definition birthdate_skipped :: "exn \<Rightarrow> env \<Rightarrow> state \<Rightarrow> state" where
  "birthdate_skipped ex e s =
     logging WARNING (''Could not fill birthdate, might not be prompted or XPATHs changed: ''
       @ str_exn e ex) s"

definition fill_birthdate :: "env \<Rightarrow> state \<Rightarrow> state" where
  "fill_birthdate e s =
     (case wait_until MonthSelect e s of
        (Inl ex, s) \<Rightarrow> birthdate_skipped ex e s
      | (Inr _, s) \<Rightarrow>
     (let (m, s) = random_choice months e s;
          s = emit (SendKeys MonthSelect m) s
      in case wait_until DaySelect e s of
        (Inl ex, s) \<Rightarrow> birthdate_skipped ex e s
      | (Inr _, s) \<Rightarrow>
     (let (d, s) = randint 1 28 e s;
          s = emit (SendKeys DaySelect (str_int d)) s
      in case wait_until YearSelect e s of
        (Inl ex, s) \<Rightarrow> birthdate_skipped ex e s
      | (Inr _, s) \<Rightarrow>
     (let (y, s) = randint 1990 2000 e s;
          s = emit (SendKeys YearSelect (str_int y)) s
      in case wait_until BirthdateNext e s of
        (Inl ex, s) \<Rightarrow> birthdate_skipped ex e s
      | (Inr _, s) \<Rightarrow> emit (Click BirthdateNext) s))))"

definition select_phone_tab :: "env \<Rightarrow> state \<Rightarrow> state" where
  "select_phone_tab e s =
     (case wait_until PhoneTab e s of
        (Inr _, s) \<Rightarrow> emit (Click PhoneTab) s
      | (Inl ex, s) \<Rightarrow>
          logging INFO (''Phone tab not found or not clickable, assuming direct input. ''
            @ str_exn e ex) s)"

definition input_phone :: "string \<Rightarrow> env \<Rightarrow> state \<Rightarrow> (exn + unit) \<times> state" where
  "input_phone phone_number e s =
     (case wait_until PhoneInput e s of
        (Inr _, s) \<Rightarrow> (Inr (), emit (SendKeys PhoneInput phone_number) s)
      | (Inl ex, s) \<Rightarrow>
          (Inl ex, logging ERROR (''Could not find or input phone number: '' @ str_exn e ex) s))"

definition input_password :: "env \<Rightarrow> state \<Rightarrow> string option \<times> state" where
  "input_password e s =
     (case wait_until PasswordInput e s of
        (Inr _, s) \<Rightarrow>
          (let (pw, s) = generate_secure_password e s;
               s = emit (SendKeys PasswordInput pw) s
           in (Some pw, s))
      | (Inl ex, s) \<Rightarrow>
          (None, logging WARNING (''Could not find or input password field: '' @ str_exn e ex) s))"

definition click_send_code :: "env \<Rightarrow> state \<Rightarrow> (exn + unit) \<times> state" where
  "click_send_code e s =
     (case wait_until SendCodeButton e s of
        (Inr _, s) \<Rightarrow> (Inr (), emit (Click SendCodeButton) s)
      | (Inl ex, s) \<Rightarrow>
          (Inl ex, logging ERROR (''Could not click 'Send code'/'Next' button: '' @ str_exn e ex) s))"

text \<open>
  \<^verbatim>\<open>_handle_captcha\<close>. The body of its \<^verbatim>\<open>try\<close> is \<open>captcha_try\<close>: the wait raises when
  no indicator shows up, and when one does the body logs a warning and raises
  \<^verbatim>\<open>Exception("CAPTCHA detected, cannot proceed automatically.")\<close>. The handler of that
  same \<^verbatim>\<open>try\<close> is a bare \<^verbatim>\<open>except:\<close> which logs and passes, so it receives both.
\<close>

definition captcha_try :: "env \<Rightarrow> state \<Rightarrow> (exn + unit) \<times> state" where
  "captcha_try e s =
     (case wait_until Captcha e s of
        (Inl ex, s) \<Rightarrow> (Inl ex, s)
      | (Inr _, s) \<Rightarrow>
          (Inl (Exception ''CAPTCHA detected, cannot proceed automatically.''),
           logging WARNING
             ''CAPTCHA detected! Manual intervention or CAPTCHA solving service required.'' s))"

definition handle_captcha :: "env \<Rightarrow> state \<Rightarrow> state" where
  "handle_captcha e s =
     (let s = logging INFO ''Checking for CAPTCHA...'' s;
          (r, s) = captcha_try e s
      in case r of
           Inl ex \<Rightarrow> logging INFO ''No CAPTCHA detected or element not found, proceeding.'' s
         | Inr _ \<Rightarrow> s)"

definition input_verification_code :: "env \<Rightarrow> state \<Rightarrow> state" where
  "input_verification_code e s =
     (case wait_until CodeInput e s of
        (Inr _, s) \<Rightarrow> emit (SendKeys CodeInput ''123456'') s
      | (Inl ex, s) \<Rightarrow>
          logging WARNING (''Verification code input not found or cannot be filled: ''
            @ str_exn e ex) s)"

definition click_final_signup :: "env \<Rightarrow> state \<Rightarrow> state" where
  "click_final_signup e s =
     (case wait_until FinalSignupButton e s of
        (Inr _, s) \<Rightarrow> emit (Click FinalSignupButton) s
      | (Inl ex, s) \<Rightarrow>
          logging INFO (''Final signup button not found or already clicked. '' @ str_exn e ex) s)"

definition username_skipped :: "exn \<Rightarrow> env \<Rightarrow> state \<Rightarrow> state" where
  "username_skipped ex e s =
     logging INFO (''Username input after registration not found or handled earlier: ''
       @ str_exn e ex) s"

definition input_username :: "string \<Rightarrow> env \<Rightarrow> state \<Rightarrow> state" where
  "input_username uname e s =
     (case wait_until UsernameInput e s of
        (Inl ex, s) \<Rightarrow> username_skipped ex e s
      | (Inr _, s) \<Rightarrow>
     (let s = emit (Clear UsernameInput) s;
          s = emit (SendKeys UsernameInput uname) s
      in case wait_until UsernameConfirm e s of
        (Inl ex, s) \<Rightarrow> username_skipped ex e s
      | (Inr _, s) \<Rightarrow> emit (Click UsernameConfirm) s))"

text \<open>\<^verbatim>\<open>_setup_profile\<close>: two \<^verbatim>\<open>try\<close> statements with bare handlers.\<close>

definition setup_profile :: "(string \<rightharpoonup> string) \<Rightarrow> env \<Rightarrow> state \<Rightarrow> state" where
  "setup_profile config e s =
     (let s = logging INFO ''Setting up TikTok profile...'' s;
          s = (case wait_until UploadPhotoButton e s of
                 (Inr _, s) \<Rightarrow> logging INFO ''Found profile photo upload prompt.'' s
               | (Inl ex, s) \<Rightarrow> logging INFO ''No profile photo upload prompt found.'' s)
      in case wait_until BioInput e s of
           (Inl ex, s) \<Rightarrow> logging INFO ''No bio input or save button found.'' s
         | (Inr _, s) \<Rightarrow>
             (let s = emit (SendKeys BioInput
                        (get_default config ''bio'' ''Automated content creator.'')) s;
                  s = logging INFO ''Filled bio.'' s
              in case wait_until BioSaveButton e s of
                   (Inl ex, s) \<Rightarrow> logging INFO ''No bio input or save button found.'' s
                 | (Inr _, s) \<Rightarrow> emit (Click BioSaveButton) s))"

subsection \<open>\<^verbatim>\<open>_register_tiktok_account\<close>\<close>

text \<open>The body of the outer \<^verbatim>\<open>try\<close>.\<close>

definition register_body ::
  "(string \<rightharpoonup> string) \<Rightarrow> env \<Rightarrow> state \<Rightarrow> (exn + tiktok_profile) \<times> state" where
  "register_body config e s =
     (let s = emit (Get ''https://www.tiktok.com/signup'') s;
          s = click_phone_or_email e s;
          s = fill_birthdate e s;
          s = select_phone_tab e s;
          (phone_number, s) = generate_virtual_phone e s;
          (r, s) = input_phone phone_number e s
      in case r of
           Inl ex \<Rightarrow> (Inl ex, s)
         | Inr _ \<Rightarrow>
     (let (uname, s) = generate_username (config ''preferred_username'') e s;
          (pw, s) = input_password e s;
          (r, s) = click_send_code e s
      in case r of
           Inl ex \<Rightarrow> (Inl ex, s)
         | Inr _ \<Rightarrow>
     (let s = handle_captcha e s;
          s = input_verification_code e s;
          s = click_final_signup e s;
          s = input_username uname e s;
          s = setup_profile config e s;
          (t, s) = now e s
      in (Inr \<lparr>username = uname, password = pw, phone = phone_number,
                tp_status = ''active'', tp_created_at = t\<rparr>, s))))"

text \<open>The outer handler: log, take a screenshot, raise again.\<close>

definition register_tiktok_account ::
  "driver \<Rightarrow> (string \<rightharpoonup> string) \<Rightarrow> env \<Rightarrow> state \<Rightarrow> (exn + tiktok_profile) \<times> state" where
  "register_tiktok_account drv config e s =
     (case register_body config e s of
        (Inr tp, s) \<Rightarrow> (Inr tp, s)
      | (Inl ex, s) \<Rightarrow>
          (let s = logging ERROR (''TikTok registration failed: '' @ str_exn e ex) s;
               (t, s) = now e s;
               s = emit (SaveScreenshot (''registration_error_'' @ strftime e t @ ''.png'')) s
           in (Inl ex, s)))"

subsection \<open>\<^verbatim>\<open>_save_tiktok_profile\<close>\<close>

text \<open>
  \<^verbatim>\<open>update_one({'account_id': id}, {'$set': {...}}, upsert=True)\<close> on the collection
  \<^verbatim>\<open>db.tiktok_accounts\<close>: the first document of that id gets the two fields; when
  there is none, a document of the id and the two fields is added.
\<close>

fun update_one_upsert :: "string \<Rightarrow> tiktok_profile \<Rightarrow> tiktok_account list \<Rightarrow> tiktok_account list" where
  "update_one_upsert aid tp [] =
     [\<lparr>ta_account_id = aid, ta_tiktok_profile = tp, ta_status = ''registered''\<rparr>]"
| "update_one_upsert aid tp (d # ds) =
     (if ta_account_id d = aid
      then d\<lparr>ta_tiktok_profile := tp, ta_status := ''registered''\<rparr> # ds
      else d # update_one_upsert aid tp ds)"

text \<open>The call is awaited like the two above: the upsert is made, then TypeError.\<close>

definition save_tiktok_profile ::
  "string \<Rightarrow> tiktok_profile \<Rightarrow> state \<Rightarrow> (exn + unit) \<times> state" where
  "save_tiktok_profile aid tp s =
     (let s = s\<lparr>tiktok_accounts := update_one_upsert aid tp (tiktok_accounts s)\<rparr>
      in case await_object ''UpdateResult'' of
           Inl ex \<Rightarrow> (Inl ex, s)
         | Inr _ \<Rightarrow>
             (Inr (),
              logging INFO (''TikTok profile for account '' @ aid @ '' saved/updated.'') s))"

subsection \<open>\<^verbatim>\<open>create_tiktok_account\<close>\<close>

text \<open>
  The handler \<^verbatim>\<open>except Exception as e\<close> of the one \<^verbatim>\<open>try\<close> that spans the body.
  The returned dicts are association lists in the order of the literals.
\<close>

definition creation_failed ::
  "exn \<Rightarrow> env \<Rightarrow> state \<Rightarrow> (string \<times> string) list \<times> state" where
  "creation_failed ex e s =
     ([(''status'', ''error''), (''message'', str_exn e ex)],
      logging ERROR (''Failed to create TikTok account: '' @ str_exn e ex) s)"

definition create_tiktok_account ::
  "string \<Rightarrow> (string \<rightharpoonup> string) \<Rightarrow> env \<Rightarrow> state \<Rightarrow> (string \<times> string) list \<times> state" where
  "create_tiktok_account uid account_config e s =
     (case create_isolated_account uid account_config e s of
        (Inl ex, s) \<Rightarrow> creation_failed ex e s
      | (Inr aid, s) \<Rightarrow>
     (case get_browser_instance aid e s of
        (Inl ex, s) \<Rightarrow> creation_failed ex e s
      | (Inr drv, s) \<Rightarrow>
     (case register_tiktok_account drv account_config e s of
        (Inl ex, s) \<Rightarrow> creation_failed ex e s
      | (Inr tp, s) \<Rightarrow>
     (case save_tiktok_profile aid tp s of
        (Inl ex, s) \<Rightarrow> creation_failed ex e s
      | (Inr _, s) \<Rightarrow>
          (let s = emit Quit s
           in ([(''account_id'', aid),
                (''status'', ''created''),
                (''tiktok_username'', username tp)], s))))))"

section \<open>Concrete inputs\<close>

text \<open>
  Environments and a state on which the statements below are instantiated. In \<open>env_all\<close>
  every awaited element shows up, the CAPTCHA indicator included; \<open>env_no_phone\<close> is
  the page without a phone input and \<open>env_no_day\<close> the page whose birthdate form has a
  month but no day. All draws are 0 and the clock stands still; the stand-ins for the
  library functions are injective on the values that occur. The exception texts are
  those of CPython 3.12 and of Selenium 4 for a wait without a message, and the
  stand-in for \<^verbatim>\<open>repr\<close> is right for keys without quotes, backslashes or control
  characters.
\<close>

definition env_all :: env where
  "env_all =
     \<lparr>surface = (\<lambda>x. True), launch_ok = True, rand = (\<lambda>i. 0), clock = (\<lambda>i. 0),
      md5_hexdigest = (\<lambda>seed. seed),
      float_str = (\<lambda>r. str_int (fst (quotient_of r)) @ ''/'' @ str_int (snd (quotient_of r))),
      strftime = str_nat, ua_random = (\<lambda>d. ''Mozilla/5.0''),
      repr_str = (\<lambda>k. [CHR 0x27] @ k @ [CHR 0x27]),
      await_str = (\<lambda>c. ''object '' @ c @ '' can't be used in 'await' expression''),
      timeout_str = (\<lambda>x. ''Message: '' @ [CHR 0x0A]),
      webdriver_str = ''Message: '' @ [CHR 0x0A]\<rparr>"



definition state0 :: state where
  "state0 =
     \<lparr>rpos = 0, cpos = 0, profiles = [], tiktok_accounts = [], events = [], logged = []\<rparr>"


definition example_config :: "string \<rightharpoonup> string" where
  "example_config =
     [''language'' \<mapsto> ''en'', ''timezone'' \<mapsto> ''America/New_York'',
      ''preferred_username'' \<mapsto> ''ai_creator_bot'']"


definition stored_xx :: state where
  "stored_xx =
     snd (create_isolated_account ''u1'' [''language'' \<mapsto> ''xx''] env_all state0)"

section \<open>Reading a trace\<close>


section \<open>Facts about the primitives\<close>

lemma str_nat_digit: "n < 10 \<Longrightarrow> str_nat n = [''0123456789'' ! n]"
  by (simp add: str_nat.simps)

lemma str_nat_more:
  "10 \<le> n \<Longrightarrow> str_nat n = str_nat (n div 10) @ [''0123456789'' ! (n mod 10)]"
  by (subst str_nat.simps) simp

lemmas eval_prims =
  emit_def logging_def next_rand_def randint_def random_choice_def random_random_def
  now_def timestamp_def str_int_def str_nat_digit str_nat_more replace_char_def
  get_default_def

lemma random_choice_mem: "xs \<noteq> [] \<Longrightarrow> fst (random_choice xs e s) \<in> set xs"
  by (simp add: random_choice_def next_rand_def)

lemma random_choice_state: "snd (random_choice xs e s) = s\<lparr>rpos := Suc (rpos s)\<rparr>"
  by (simp add: random_choice_def next_rand_def)

lemma randint_state: "snd (randint a b e s) = s\<lparr>rpos := Suc (rpos s)\<rparr>"
  by (simp add: randint_def next_rand_def)

lemma next_rand_state: "snd (next_rand e s) = s\<lparr>rpos := Suc (rpos s)\<rparr>"
  by (simp add: next_rand_def)

lemma now_state: "snd (now e s) = s\<lparr>cpos := Suc (cpos s)\<rparr>"
  by (simp add: now_def)

lemma randint_range:
  assumes "a \<le> b"
  shows "a \<le> fst (randint a b e s) \<and> fst (randint a b e s) \<le> b"
proof -
  have pos: "0 < nat (b - a + 1)" using assms by simp
  have "rand e (rpos s) mod nat (b - a + 1) < nat (b - a + 1)"
    using pos by (rule mod_less_divisor)
  then have "int (rand e (rpos s) mod nat (b - a + 1)) < b - a + 1"
    using assms by linarith
  then show ?thesis
    by (simp add: randint_def next_rand_def)
qed

lemma canvas_value:
  "fst (generate_canvas_fingerprint e s) =
     md5_hexdigest e
       (float_str e (of_nat (rand e (rpos s) mod 2 ^ 53) / 2 ^ 53) @
        float_str e (timestamp (clock e (cpos s))))"
  by (simp add: generate_canvas_fingerprint_def random_random_def next_rand_def now_def)

lemma canvas_state:
  "snd (generate_canvas_fingerprint e s) = s\<lparr>rpos := Suc (rpos s), cpos := Suc (cpos s)\<rparr>"
  by (simp add: generate_canvas_fingerprint_def random_random_def next_rand_def now_def)

lemma fingerprint_state:
  "snd (generate_browser_fingerprint e s) = s\<lparr>rpos := rpos s + 10, cpos := Suc (cpos s)\<rparr>"
  by (simp add: generate_browser_fingerprint_def split_def random_choice_state randint_state
      next_rand_state canvas_state)

lemma fingerprint_canvas:
  "canvas_fingerprint (fst (generate_browser_fingerprint e s)) =
     md5_hexdigest e
       (float_str e (of_nat (rand e (rpos s + 9) mod 2 ^ 53) / 2 ^ 53) @
        float_str e (timestamp (clock e (cpos s))))"
proof -
  have nine: "Suc (Suc (Suc (Suc (Suc (Suc (Suc (Suc (Suc n)))))))) = n + 9" for n
    by simp
  show ?thesis
    by (simp add: generate_browser_fingerprint_def split_def random_choice_state
        randint_state next_rand_state canvas_value nine)
qed

lemma choice_lists_nonempty:
  "screen_resolutions \<noteq> []" "viewport_sizes \<noteq> []" "color_depths \<noteq> []"
  "pixel_ratios \<noteq> []" "platforms \<noteq> []" "webgl_vendors \<noteq> []"
  "map fst supported_languages \<noteq> []"
  by (simp_all add: screen_resolutions_def viewport_sizes_def color_depths_def
      pixel_ratios_def platforms_def webgl_vendors_def supported_languages_def)

lemma fingerprint_resolution:
  "screen_resolution (fst (generate_browser_fingerprint e s)) \<in> set screen_resolutions"
  by (simp add: generate_browser_fingerprint_def split_def Let_def random_choice_mem
      choice_lists_nonempty)

lemma fingerprint_choices:
  "viewport_size (fst (generate_browser_fingerprint e s)) \<in> set viewport_sizes"
  "color_depth (fst (generate_browser_fingerprint e s)) \<in> set color_depths"
  "pixel_ratio (fst (generate_browser_fingerprint e s)) \<in> set pixel_ratios"
  "platform (fst (generate_browser_fingerprint e s)) \<in> set platforms"
  "webgl_vendor (fst (generate_browser_fingerprint e s)) \<in> set webgl_vendors"
  "fp_language (fst (generate_browser_fingerprint e s)) \<in> set (map fst supported_languages)"
  by (simp_all only: generate_browser_fingerprint_def split_def Let_def fst_conv
      fingerprint.simps random_choice_mem [OF choice_lists_nonempty(2)]
      random_choice_mem [OF choice_lists_nonempty(3)]
      random_choice_mem [OF choice_lists_nonempty(4)]
      random_choice_mem [OF choice_lists_nonempty(5)]
      random_choice_mem [OF choice_lists_nonempty(6)]
      random_choice_mem [OF choice_lists_nonempty(7)])

lemma fingerprint_timezone:
  "- 12 \<le> timezone_offset (fst (generate_browser_fingerprint e s)) \<and>
   timezone_offset (fst (generate_browser_fingerprint e s)) \<le> 12"
  using randint_range [of "- 12" 12]
  by (simp add: generate_browser_fingerprint_def split_def Let_def)

section \<open>Fingerprints\<close>

text \<open>
  C8, as amended. Every enumerated field of a generated fingerprint is a member of the
  list the source draws it from. The canvas signature is the MD5 digest of the text of
  the call's tenth draw followed by the text of its clock reading, and the next call
  uses the twentieth draw and the next reading: the two signatures differ exactly when
  MD5 gives the two seeds different digests, which the program does not ensure.
\<close>

theorem fingerprint_fields_enumerated:
  "screen_resolution (fst (generate_browser_fingerprint e s)) \<in> set screen_resolutions \<and>
   viewport_size (fst (generate_browser_fingerprint e s)) \<in> set viewport_sizes \<and>
   color_depth (fst (generate_browser_fingerprint e s)) \<in> set color_depths \<and>
   pixel_ratio (fst (generate_browser_fingerprint e s)) \<in> set pixel_ratios \<and>
   platform (fst (generate_browser_fingerprint e s)) \<in> set platforms \<and>
   webgl_vendor (fst (generate_browser_fingerprint e s)) \<in> set webgl_vendors \<and>
   fp_language (fst (generate_browser_fingerprint e s)) \<in> set (map fst supported_languages) \<and>
   canvas_fingerprint (fst (generate_browser_fingerprint e s)) =
     md5_hexdigest e
       (float_str e (of_nat (rand e (rpos s + 9) mod 2 ^ 53) / 2 ^ 53) @
        float_str e (timestamp (clock e (cpos s)))) \<and>
   canvas_fingerprint
       (fst (generate_browser_fingerprint e (snd (generate_browser_fingerprint e s)))) =
     md5_hexdigest e
       (float_str e (of_nat (rand e (rpos s + 19) mod 2 ^ 53) / 2 ^ 53) @
        float_str e (timestamp (clock e (Suc (cpos s)))))"
proof -
  have second: "rpos (snd (generate_browser_fingerprint e s)) + 9 = rpos s + 19"
    "cpos (snd (generate_browser_fingerprint e s)) = Suc (cpos s)"
    by (simp_all add: fingerprint_state)
  show ?thesis
    using fingerprint_resolution [of e s] fingerprint_choices [of e s]
    by (simp only: fingerprint_canvas second simp_thms)
qed

theorem fingerprint_fields_enumerated_witness:
  "screen_resolution (fst (generate_browser_fingerprint env_all state0)) = ''1920x1080'' \<and>
   screen_resolution (fst (generate_browser_fingerprint env_all state0))
     \<in> set screen_resolutions \<and>
   fp_language (fst (generate_browser_fingerprint env_all state0))
     \<in> set (map fst supported_languages)"
proof -
  have "screen_resolution (fst (generate_browser_fingerprint env_all state0)) = ''1920x1080''"
    by (simp add: generate_browser_fingerprint_def split_def Let_def random_choice_def
        next_rand_def env_all_def state0_def screen_resolutions_def)
  then show ?thesis
    using fingerprint_fields_enumerated [of env_all state0] by simp
qed

text \<open>
  Two consecutive calls that meet equal draws and equal clock readings produce the same
  canvas signature, here under a hash that has no collisions at all.
\<close>

theorem canvas_signatures_collide:
  "canvas_fingerprint (fst (generate_browser_fingerprint env_all state0)) =
   canvas_fingerprint
     (fst (generate_browser_fingerprint env_all
        (snd (generate_browser_fingerprint env_all state0))))"
  by (simp add: fingerprint_canvas fingerprint_state env_all_def state0_def)

section \<open>Proxies\<close>

lemma proxy_list_nth_eq:
  "(proxy_list ! (i mod 2) = proxy_list ! (j mod 2)) = (i mod 2 = j mod 2)"
proof -
  have "i mod 2 = 0 \<or> i mod 2 = 1" "j mod 2 = 0 \<or> j mod 2 = 1"
    by auto
  then show ?thesis
    by (auto simp add: proxy_list_def)
qed

lemma assign_proxy_value:
  "assign_proxy proxy_list e s =
     (Inr (proxy_list ! (rand e (rpos s) mod 2)), s\<lparr>rpos := Suc (rpos s)\<rparr>)"
proof -
  have "length proxy_list = 2"
    by (simp add: proxy_list_def)
  then show ?thesis
    by (auto simp add: assign_proxy_def random_choice_def next_rand_def)
qed

text \<open>
  C4, as amended. \<^verbatim>\<open>_assign_proxy\<close> keeps no lease: it returns the entry of the
  fixed list that the draw selects and changes nothing but the position of the random
  source. Two attempts in a row therefore hold the same endpoint exactly when their
  draws have the same parity.
\<close>

theorem assign_proxy_draw_only:
  "assign_proxy proxy_list e s =
     (Inr (proxy_list ! (rand e (rpos s) mod 2)), s\<lparr>rpos := Suc (rpos s)\<rparr>) \<and>
   (fst (assign_proxy proxy_list e (snd (assign_proxy proxy_list e s))) =
      fst (assign_proxy proxy_list e s)) =
     (rand e (Suc (rpos s)) mod 2 = rand e (rpos s) mod 2)"
  by (simp add: assign_proxy_value proxy_list_nth_eq)

theorem assign_proxy_draw_only_witness:
  "fst (assign_proxy proxy_list env_all state0) = Inr (proxy_list ! 0) \<and>
   profiles (snd (assign_proxy proxy_list env_all state0)) = []"
  using assign_proxy_draw_only [of env_all state0]
  by (simp add: env_all_def state0_def)

theorem same_proxy_assigned_twice:
  "fst (assign_proxy proxy_list env_all state0) = Inr (hd proxy_list) \<and>
   fst (assign_proxy proxy_list env_all (snd (assign_proxy proxy_list env_all state0))) =
     Inr (hd proxy_list) \<and>
   ip (hd proxy_list) = ''1.2.3.4''"
  unfolding assign_proxy_value
  by (simp add: env_all_def state0_def proxy_list_def)


section \<open>The three awaited calls\<close>

text \<open>
  Each of the three database functions makes its call and then raises: the store is
  read or written, and the log line that follows the \<^verbatim>\<open>await\<close> is never reached.
\<close>

lemma save_account_profile_value:
  "save_account_profile p s =
     (Inl (TypeError ''InsertOneResult''), s\<lparr>profiles := profiles s @ [p]\<rparr>)"
  by (simp add: save_account_profile_def await_object_def)

lemma get_account_profile_value:
  "get_account_profile aid s =
     Inl (TypeError
       (case find (\<lambda>p. account_id p = aid) (profiles s) of
          None \<Rightarrow> ''NoneType'' | Some _ \<Rightarrow> ''dict''))"
  by (simp add: get_account_profile_def await_object_def)


lemma get_browser_instance_value:
  "get_browser_instance aid e s =
     (Inl (TypeError
        (case find (\<lambda>p. account_id p = aid) (profiles s) of
           None \<Rightarrow> ''NoneType'' | Some _ \<Rightarrow> ''dict'')), s)"
  by (simp add: get_browser_instance_def get_account_profile_value)

section \<open>Profile creation\<close>

lemma device_info_state:
  "snd (generate_device_info e s) = s\<lparr>rpos := rpos s + 3\<rparr>"
  by (simp add: generate_device_info_def split_def random_choice_state)

text \<open>
  \<^verbatim>\<open>create_isolated_account\<close> makes fifteen draws and reads the clock three times: one
  draw for the id, ten draws and one reading for the fingerprint, one draw for the
  proxy, three for the device and two readings for the two times. It then stores the
  profile, and the \<^verbatim>\<open>await\<close> of \<^verbatim>\<open>_save_account_profile\<close> raises.
\<close>

lemma create_isolated_account_value:
  "create_isolated_account uid cfg e s =
     (Inl (TypeError ''InsertOneResult''),
      s\<lparr>rpos := rpos s + 15, cpos := cpos s + 3,
        profiles := profiles s @
          [\<lparr>account_id =
              ''tiktok_'' @ uid @ ''_'' @ str_int (10000 + int (rand e (rpos s) mod 90000)),
            user_id = uid,
            proxy_config = proxy_list ! (rand e (rpos s + 11) mod 2),
            browser_fingerprint =
              fst (generate_browser_fingerprint e (s\<lparr>rpos := Suc (rpos s)\<rparr>)),
            language = get_default cfg ''language'' ''en'',
            timezone = get_default cfg ''timezone'' ''UTC'',
            device_info =
              fst (generate_device_info e (s\<lparr>cpos := Suc (cpos s), rpos := rpos s + 12\<rparr>)),
            created_at = clock e (Suc (cpos s)),
            last_active = clock e (cpos s + 2),
            status = ''active''\<rparr>]\<rparr>)"
  by (simp add: create_isolated_account_def assign_proxy_value save_account_profile_value
      split_def Let_def randint_def next_rand_def fingerprint_state device_info_state now_def
      add.commute numeral_2_eq_2 numeral_3_eq_3)


lemma create_tiktok_account_value:
  "create_tiktok_account uid cfg e s =
     creation_failed (TypeError ''InsertOneResult'') e
       (snd (create_isolated_account uid cfg e s))"
  by (simp add: create_tiktok_account_def create_isolated_account_value)

section \<open>Proxy allocation and the profile\<close>





section \<open>What each function leaves alone\<close>

lemma emit_fields:
  "profiles (emit ev s) = profiles s"
  "tiktok_accounts (emit ev s) = tiktok_accounts s"
  "events (emit ev s) = events s @ [ev]"
  "cpos (emit ev s) = cpos s"
  by (simp_all add: emit_def)

lemma logging_fields:
  "profiles (logging l m s) = profiles s"
  "tiktok_accounts (logging l m s) = tiktok_accounts s"
  "events (logging l m s) = events s"
  "cpos (logging l m s) = cpos s"
  by (simp_all add: logging_def)

lemma wait_until_alt:
  "wait_until x e s =
     (if surface e x then Inr () else Inl (TimeoutException x), emit (Wait x) s)"
  by (simp add: wait_until_def)

lemmas draw_states =
  random_choice_state randint_state next_rand_state now_state device_info_state
  fingerprint_state

lemmas step_simps = wait_until_alt emit_fields logging_fields draw_states split_def Let_def

lemma prefix_events_emit: "prefix (events s) (events (emit ev s))"
  by (simp add: emit_def)






lemma random_chars_value:
  "random_chars n cs e s =
     (map (\<lambda>i. cs ! (rand e (rpos s + i) mod length cs)) [0..<n], s\<lparr>rpos := rpos s + n\<rparr>)"
proof (induction n arbitrary: s)
  case 0
  show ?case by simp
next
  case (Suc n)
  show ?case
    by (simp add: Suc random_choice_def next_rand_def map_upt_Suc del: upt_Suc)
qed

lemma password_value:
  "generate_secure_password e s =
     (map (\<lambda>i. chars ! (rand e (rpos s + i) mod 72)) [0..<12], s\<lparr>rpos := rpos s + 12\<rparr>)"
  by (simp add: generate_secure_password_def random_chars_value chars_def)









section \<open>The registration sequence, step by step\<close>









lemma handle_captcha_value:
  "handle_captcha e s =
     logging INFO ''No CAPTCHA detected or element not found, proceeding.''
       ((if surface e Captcha
         then logging WARNING
                ''CAPTCHA detected! Manual intervention or CAPTCHA solving service required.''
         else (\<lambda>s. s))
          (emit (Wait Captcha) (logging INFO ''Checking for CAPTCHA...'' s)))"
  by (simp add: handle_captcha_def captcha_try_def wait_until_alt)







lemma register_body_outcome:
  "fst (register_body cfg e s) = Inl ex \<longleftrightarrow>
     (\<not> surface e PhoneInput \<and> ex = TimeoutException PhoneInput) \<or>
     (surface e PhoneInput \<and> \<not> surface e SendCodeButton \<and>
        ex = TimeoutException SendCodeButton)"
  by (auto simp add: register_body_def input_phone_def click_send_code_def step_simps)









section \<open>Required and optional steps\<close>




section \<open>The CAPTCHA check\<close>

lemma replicate_12: "replicate 12 c = [c, c, c, c, c, c, c, c, c, c, c, c]"
  by (simp add: eval_nat_numeral)

lemmas run_defs =
  register_tiktok_account_def register_body_def click_phone_or_email_def fill_birthdate_def
  birthdate_skipped_def select_phone_tab_def generate_virtual_phone_def input_phone_def
  generate_username_def input_password_def password_value click_send_code_def
  captcha_try_def handle_captcha_def input_verification_code_def click_final_signup_def
  input_username_def username_skipped_def setup_profile_def wait_until_def months_def
  chars_def eval_prims Let_def map_replicate_const replicate_12

text \<open>
  C1. \<^verbatim>\<open>_handle_captcha\<close> ends in the same way whether or not the indicator shows up:
  when it does, the function logs that a CAPTCHA was detected and raises inside its
  own \<^verbatim>\<open>try\<close>, whose bare \<^verbatim>\<open>except:\<close> catches the exception, logs that no CAPTCHA was
  detected and passes. On the page where every awaited element shows up, the CAPTCHA
  indicator included, \<^verbatim>\<open>_register_tiktok_account\<close> therefore goes on after the
  detection: it waits for the code input, types the code \<open>123456\<close>, completes the
  remaining steps and returns the profile dict.
\<close>

theorem captcha_detected_registration_goes_on:
  "handle_captcha e s =
     logging INFO ''No CAPTCHA detected or element not found, proceeding.''
       ((if surface e Captcha
         then logging WARNING
                ''CAPTCHA detected! Manual intervention or CAPTCHA solving service required.''
         else (\<lambda>s. s))
          (emit (Wait Captcha) (logging INFO ''Checking for CAPTCHA...'' s))) \<and>
   surface env_all Captcha \<and>
   fst (register_tiktok_account (Chrome []) Map.empty env_all state0) =
     Inr \<lparr>username = ''user_0_100'', password = Some ''aaaaaaaaaaaa'',
          phone = ''12002001000'', tp_status = ''active'', tp_created_at = 0\<rparr> \<and>
   events (snd (register_tiktok_account (Chrome []) Map.empty env_all state0)) =
     [Get ''https://www.tiktok.com/signup'',
      Wait PhoneEmailButton, Click PhoneEmailButton,
      Wait MonthSelect, SendKeys MonthSelect ''Jan'',
      Wait DaySelect, SendKeys DaySelect ''1'',
      Wait YearSelect, SendKeys YearSelect ''1990'',
      Wait BirthdateNext, Click BirthdateNext,
      Wait PhoneTab, Click PhoneTab,
      Wait PhoneInput, SendKeys PhoneInput ''12002001000'',
      Wait PasswordInput, SendKeys PasswordInput ''aaaaaaaaaaaa'',
      Wait SendCodeButton, Click SendCodeButton,
      Wait Captcha,
      Wait CodeInput, SendKeys CodeInput ''123456'',
      Wait FinalSignupButton, Click FinalSignupButton,
      Wait UsernameInput, Clear UsernameInput, SendKeys UsernameInput ''user_0_100'',
      Wait UsernameConfirm, Click UsernameConfirm,
      Wait UploadPhotoButton,
      Wait BioInput, SendKeys BioInput ''Automated content creator.'',
      Wait BioSaveButton, Click BioSaveButton] \<and>
   logged (snd (register_tiktok_account (Chrome []) Map.empty env_all state0)) =
     [(INFO, ''Checking for CAPTCHA...''),
      (WARNING,
       ''CAPTCHA detected! Manual intervention or CAPTCHA solving service required.''),
      (INFO, ''No CAPTCHA detected or element not found, proceeding.''),
      (INFO, ''Setting up TikTok profile...''),
      (INFO, ''Found profile photo upload prompt.''),
      (INFO, ''Filled bio.'')]"
proof -
  have run:
    "register_tiktok_account (Chrome []) Map.empty env_all state0 =
       (Inr \<lparr>username = ''user_0_100'', password = Some ''aaaaaaaaaaaa'',
             phone = ''12002001000'', tp_status = ''active'', tp_created_at = 0\<rparr>,
        \<lparr>rpos = 19, cpos = 2, profiles = [], tiktok_accounts = [],
         events =
           [Get ''https://www.tiktok.com/signup'',
            Wait PhoneEmailButton, Click PhoneEmailButton,
            Wait MonthSelect, SendKeys MonthSelect ''Jan'',
            Wait DaySelect, SendKeys DaySelect ''1'',
            Wait YearSelect, SendKeys YearSelect ''1990'',
            Wait BirthdateNext, Click BirthdateNext,
            Wait PhoneTab, Click PhoneTab,
            Wait PhoneInput, SendKeys PhoneInput ''12002001000'',
            Wait PasswordInput, SendKeys PasswordInput ''aaaaaaaaaaaa'',
            Wait SendCodeButton, Click SendCodeButton,
            Wait Captcha,
            Wait CodeInput, SendKeys CodeInput ''123456'',
            Wait FinalSignupButton, Click FinalSignupButton,
            Wait UsernameInput, Clear UsernameInput, SendKeys UsernameInput ''user_0_100'',
            Wait UsernameConfirm, Click UsernameConfirm,
            Wait UploadPhotoButton,
            Wait BioInput, SendKeys BioInput ''Automated content creator.'',
            Wait BioSaveButton, Click BioSaveButton],
         logged =
           [(INFO, ''Checking for CAPTCHA...''),
            (WARNING,
             ''CAPTCHA detected! Manual intervention or CAPTCHA solving service required.''),
            (INFO, ''No CAPTCHA detected or element not found, proceeding.''),
            (INFO, ''Setting up TikTok profile...''),
            (INFO, ''Found profile photo upload prompt.''),
            (INFO, ''Filled bio.'')]\<rparr>)"
    by (simp add: run_defs env_all_def state0_def)
  show ?thesis
    by (simp add: run handle_captcha_value) (simp add: env_all_def)
qed

section \<open>The status field\<close>

lemma upsert_member:
  "\<lparr>ta_account_id = aid, ta_tiktok_profile = tp, ta_status = ''registered''\<rparr>
     \<in> set (update_one_upsert aid tp ds)"
  by (induction ds) auto






section \<open>The language of a profile\<close>

lemma build_browser_unsupported:
  "map_of supported_languages (language p) = None \<Longrightarrow>
   build_browser aid p e s = (Inl (KeyError (language p)), s)"
  by (simp add: build_browser_def Let_def)

lemma build_browser_supported:
  assumes "fst (build_browser aid p e s) = Inr drv"
  shows "language p \<in> set (map fst supported_languages)"
proof (rule ccontr)
  assume "language p \<notin> set (map fst supported_languages)"
  then have "map_of supported_languages (language p) = None"
    by (simp add: map_of_eq_None_iff)
  then show False
    using assms by (simp add: build_browser_unsupported)
qed

lemma supported_language_keys:
  "map fst supported_languages =
     [''en'', ''zh'', ''ja'', ''ko'', ''es'', ''fr'', ''de'', ''it'', ''pt'', ''ru'',
      ''ar'', ''hi'', ''th'']"
  by (simp add: supported_languages_def)

text \<open>
  C9. \<^verbatim>\<open>get_browser_instance\<close> raises at its first statement, for every account id
  and every store: \<^verbatim>\<open>_get_account_profile\<close> awaits what \<^verbatim>\<open>find_one\<close> returned, a
  dict or \<^verbatim>\<open>None\<close>, and the TypeError of that \<^verbatim>\<open>await\<close> leaves the function before
  the profile is looked at. The lookup of the language in \<^verbatim>\<open>supported_languages\<close> is
  not reached: for the stored profile of the unsupported language \<^verbatim>\<open>xx\<close> the
  exception is the TypeError, not a KeyError.

  The statements behind the \<^verbatim>\<open>await\<close> are those the claim describes. Run on the
  stored profile of the language \<^verbatim>\<open>xx\<close>, they raise the KeyError of the lookup before
  any driver call; run on the same profile with the language \<^verbatim>\<open>en\<close>, they start the
  browser with the locale \<^verbatim>\<open>en-US\<close> and run the four scripts.
\<close>

theorem get_browser_instance_raises_before_lookup:
  "get_browser_instance aid e s =
     (Inl (TypeError
        (case find (\<lambda>p. account_id p = aid) (profiles s) of
           None \<Rightarrow> ''NoneType'' | Some _ \<Rightarrow> ''dict'')), s) \<and>
   map (\<lambda>p. (account_id p, language p)) (profiles stored_xx) =
     [(''tiktok_u1_10000'', ''xx'')] \<and>
   ''xx'' \<notin> set (map fst supported_languages) \<and>
   get_browser_instance ''tiktok_u1_10000'' env_all stored_xx =
     (Inl (TypeError ''dict''), stored_xx) \<and>
   str_exn env_all (TypeError ''dict'') = ''object dict can't be used in 'await' expression'' \<and>
   build_browser ''tiktok_u1_10000'' (hd (profiles stored_xx)) env_all stored_xx =
     (Inl (KeyError ''xx''), stored_xx) \<and>
   fst (build_browser ''tiktok_u1_10000'' ((hd (profiles stored_xx))\<lparr>language := ''en''\<rparr>)
     env_all stored_xx) =
     Inr (Chrome
       [''--no-sandbox'', ''--disable-dev-shm-usage'',
        ''--disable-blink-features=AutomationControlled'',
        ''--proxy-server=http://1.2.3.4:8080'', ''--user-agent=Mozilla/5.0'',
        ''--window-size=1920,1080'', ''--lang=en-US'',
        ''--user-data-dir=/tmp/chrome_profiles/tiktok_u1_10000'']) \<and>
   events (snd (build_browser ''tiktok_u1_10000''
     ((hd (profiles stored_xx))\<lparr>language := ''en''\<rparr>) env_all stored_xx)) =
     [Launch
        [''--no-sandbox'', ''--disable-dev-shm-usage'',
         ''--disable-blink-features=AutomationControlled'',
         ''--proxy-server=http://1.2.3.4:8080'', ''--user-agent=Mozilla/5.0'',
         ''--window-size=1920,1080'', ''--lang=en-US'',
         ''--user-data-dir=/tmp/chrome_profiles/tiktok_u1_10000''],
      ExecuteScript HideWebdriver,
      ExecuteScript (OverrideNavigator ''Mozilla/5.0'' ''Win32'' ''en''),
      ExecuteScript (OverrideScreen ''1920'' ''1080'' 24),
      ExecuteScript FakePlugins]"
proof -
  have stored: "map (\<lambda>p. (account_id p, language p)) (profiles stored_xx) =
      [(''tiktok_u1_10000'', ''xx'')]"
    by (simp add: stored_xx_def create_isolated_account_value state0_def env_all_def
        eval_prims)
  then have found: "find (\<lambda>p. account_id p = ''tiktok_u1_10000'') (profiles stored_xx) \<noteq> None"
    by (auto simp add: find_None_iff)
  have raised: "get_browser_instance ''tiktok_u1_10000'' env_all stored_xx =
      (Inl (TypeError ''dict''), stored_xx)"
    using found by (auto simp add: get_browser_instance_value)
  have xx: "language (hd (profiles stored_xx)) = ''xx''"
    using stored by (cases "profiles stored_xx") auto
  have lookup: "build_browser ''tiktok_u1_10000'' (hd (profiles stored_xx)) env_all stored_xx =
      (Inl (KeyError ''xx''), stored_xx)"
    using build_browser_unsupported [of "hd (profiles stored_xx)" "''tiktok_u1_10000''"
        env_all stored_xx]
    by (simp add: xx supported_languages_def)
  have built: "build_browser ''tiktok_u1_10000''
      ((hd (profiles stored_xx))\<lparr>language := ''en''\<rparr>) env_all stored_xx =
      (Inr (Chrome
         [''--no-sandbox'', ''--disable-dev-shm-usage'',
          ''--disable-blink-features=AutomationControlled'',
          ''--proxy-server=http://1.2.3.4:8080'', ''--user-agent=Mozilla/5.0'',
          ''--window-size=1920,1080'', ''--lang=en-US'',
          ''--user-data-dir=/tmp/chrome_profiles/tiktok_u1_10000'']),
       stored_xx\<lparr>events :=
         [Launch
            [''--no-sandbox'', ''--disable-dev-shm-usage'',
             ''--disable-blink-features=AutomationControlled'',
             ''--proxy-server=http://1.2.3.4:8080'', ''--user-agent=Mozilla/5.0'',
             ''--window-size=1920,1080'', ''--lang=en-US'',
             ''--user-data-dir=/tmp/chrome_profiles/tiktok_u1_10000''],
          ExecuteScript HideWebdriver,
          ExecuteScript (OverrideNavigator ''Mozilla/5.0'' ''Win32'' ''en''),
          ExecuteScript (OverrideScreen ''1920'' ''1080'' 24),
          ExecuteScript FakePlugins]\<rparr>)"
    by (simp add: build_browser_def apply_anti_detection_def stored_xx_def
        create_isolated_account_value generate_browser_fingerprint_def
        generate_canvas_fingerprint_def screen_resolutions_def viewport_sizes_def
        color_depths_def pixel_ratios_def platforms_def webgl_vendors_def
        supported_languages_def proxy_list_def state0_def env_all_def eval_prims Let_def
        split_def)
  show ?thesis
    using stored
    by (simp add: get_browser_instance_value [of aid e s] raised lookup built)
      (simp add: supported_languages_def env_all_def)
qed

section \<open>What the caller is given\<close>

text \<open>
  C7. \<^verbatim>\<open>create_tiktok_account\<close> returns for every owner id and configuration, and
  what it returns is the error dict of its handler: the status \<open>error\<close> and, as the
  message, the text of the exception that ended the attempt, which is the TypeError
  of the \<^verbatim>\<open>await\<close> in \<^verbatim>\<open>_save_account_profile\<close>. The dict of a success is never
  returned, whole or in part.
\<close>

theorem create_tiktok_account_returns_error:
  "create_tiktok_account uid cfg e s =
     ([(''status'', ''error''), (''message'', await_str e ''InsertOneResult'')],
      logging ERROR (''Failed to create TikTok account: '' @ await_str e ''InsertOneResult'')
        (snd (create_isolated_account uid cfg e s))) \<and>
   fst (create_isolated_account uid cfg e s) = Inl (TypeError ''InsertOneResult'') \<and>
   str_exn e (TypeError ''InsertOneResult'') = await_str e ''InsertOneResult''"
  by (simp add: create_tiktok_account_value creation_failed_def
      create_isolated_account_value)

theorem create_tiktok_account_returns_error_witness:
  "fst (create_tiktok_account ''test_user_123'' example_config env_all state0) =
     [(''status'', ''error''),
      (''message'', ''object InsertOneResult can't be used in 'await' expression'')] \<and>
   logged (snd (create_tiktok_account ''test_user_123'' example_config env_all state0)) =
     [(ERROR,
       ''Failed to create TikTok account: object InsertOneResult can't be used in 'await' expression'')]"
  using create_tiktok_account_returns_error [of "''test_user_123''" example_config env_all
      state0]
  by (simp add: create_isolated_account_value logging_def env_all_def state0_def)

section \<open>The browser of an attempt\<close>






section \<open>The credentials of an account\<close>


end
